theory Spec2Isabelle
  imports Complex_Main
begin

section \<open>Numbers\<close>

text \<open>
  A TypeScript \<open>number\<close> is a real, one of the two infinities, or NaN. Arithmetic on
  finite numbers is taken exact (no rounding); comparisons follow IEEE 754: every
  comparison with NaN is false.
\<close>

datatype number = Num real | PosInf | NegInf | NaN

fun num_lt :: "number \<Rightarrow> number \<Rightarrow> bool" where
  "num_lt NaN _ = False"
| "num_lt _ NaN = False"
| "num_lt (Num a) (Num b) = (a < b)"
| "num_lt (Num _) PosInf = True"
| "num_lt (Num _) NegInf = False"
| "num_lt PosInf _ = False"
| "num_lt NegInf (Num _) = True"
| "num_lt NegInf PosInf = True"
| "num_lt NegInf NegInf = False"

fun num_ge :: "number \<Rightarrow> number \<Rightarrow> bool" where
  "num_ge NaN _ = False"
| "num_ge _ NaN = False"
| "num_ge (Num a) (Num b) = (a \<ge> b)"
| "num_ge (Num _) PosInf = False"
| "num_ge (Num _) NegInf = True"
| "num_ge PosInf _ = True"
| "num_ge NegInf (Num _) = False"
| "num_ge NegInf PosInf = False"
| "num_ge NegInf NegInf = True"

text \<open>\<open>Math.min\<close> and \<open>Math.max\<close>: NaN if either argument is NaN.\<close>

definition Math_min :: "number \<Rightarrow> number \<Rightarrow> number" where
  "Math_min a b = (if a = NaN \<or> b = NaN then NaN else if num_lt b a then b else a)"

definition Math_max :: "number \<Rightarrow> number \<Rightarrow> number" where
  "Math_max a b = (if a = NaN \<or> b = NaN then NaN else if num_lt a b then b else a)"

text \<open>Addition: NaN is absorbing, and so is the sum of the two infinities.\<close>

fun num_add :: "number \<Rightarrow> number \<Rightarrow> number" where
  "num_add NaN _ = NaN"
| "num_add _ NaN = NaN"
| "num_add (Num a) (Num b) = Num (a + b)"
| "num_add (Num _) PosInf = PosInf"
| "num_add (Num _) NegInf = NegInf"
| "num_add PosInf NegInf = NaN"
| "num_add PosInf _ = PosInf"
| "num_add NegInf PosInf = NaN"
| "num_add NegInf _ = NegInf"

text \<open>Division of a number by the length of an array.\<close>

fun num_div :: "number \<Rightarrow> nat \<Rightarrow> number" where
  "num_div NaN _ = NaN"
| "num_div PosInf _ = PosInf"
| "num_div NegInf _ = NegInf"
| "num_div (Num a) n =
     (if n = 0 then (if a > 0 then PosInf else if a < 0 then NegInf else NaN)
      else Num (a / real n))"

section \<open>Data model (src/app/page.tsx)\<close>

record ColorRule =
  rule_min :: real
  rule_max :: real
  rule_color :: string

record DataSource =
  ds_id :: string
  ds_name :: string
  ds_unit :: string
  colorRules :: "ColorRule list"

text \<open>
  \<open>value?: number\<close> is \<open>None\<close> both when the field is missing (a polygon just created)
  and when it holds \<open>null\<close> (a fetch that gave no value).
\<close>

record Polygon =
  polygon_id :: string
  coordinates :: "(real \<times> real) list"
  color :: string
  polygon_value :: "number option"
  dataSource :: string

record TimeRange =
  range_start :: int
  range_end :: int

definition rule :: "real \<Rightarrow> real \<Rightarrow> string \<Rightarrow> ColorRule" where
  "rule lo hi c = \<lparr>rule_min = lo, rule_max = hi, rule_color = c\<rparr>"

text \<open>The fixed catalog of four variables. The unit of the first is kept byte for byte.\<close>

definition dataSources :: "DataSource list" where
  "dataSources =
    [\<lparr>ds_id = ''temperature_2m'', ds_name = ''Temperature (2m)'',
      ds_unit = [CHR 0xC3, CHR 0x82, CHR 0xC2, CHR 0xB0, CHR ''C''],
      colorRules =
        [rule (-20) 0 ''#3B82F6'', rule 0 10 ''#06B6D4'', rule 10 20 ''#10B981'',
         rule 20 30 ''#F59E0B'', rule 30 50 ''#EF4444'']\<rparr>,
     \<lparr>ds_id = ''relative_humidity_2m'', ds_name = ''Humidity (2m)'', ds_unit = ''%'',
      colorRules =
        [rule 0 20 ''#DC2626'', rule 20 40 ''#F59E0B'', rule 40 60 ''#10B981'',
         rule 60 80 ''#06B6D4'', rule 80 100 ''#3B82F6'']\<rparr>,
     \<lparr>ds_id = ''precipitation'', ds_name = ''Precipitation'', ds_unit = ''mm'',
      colorRules =
        [rule 0 (1/10) ''#F3F4F6'', rule (1/10) 1 ''#06B6D4'', rule 1 5 ''#3B82F6'',
         rule 5 15 ''#1D4ED8'', rule 15 50 ''#1E1B4B'']\<rparr>,
     \<lparr>ds_id = ''wind_speed_10m'', ds_name = ''Wind Speed (10m)'', ds_unit = ''km/h'',
      colorRules =
        [rule 0 5 ''#F3F4F6'', rule 5 15 ''#10B981'', rule 15 30 ''#F59E0B'',
         rule 30 50 ''#EF4444'', rule 50 100 ''#7C2D12'']\<rparr>]"

section \<open>Classifier: getColorForValue\<close>

datatype error = ReferenceError | HttpError | SyntaxError | TypeError

definition neutral :: string where
  "neutral = ''#9CA3AF''"

definition matches :: "number \<Rightarrow> ColorRule \<Rightarrow> bool" where
  "matches v r = (num_ge v (Num (rule_min r)) \<and> num_lt v (Num (rule_max r)))"

text \<open>The \<open>for (const rule of dataSource.colorRules)\<close> loop: the first match returns.\<close>

fun scanRules :: "number \<Rightarrow> ColorRule list \<Rightarrow> string option" where
  "scanRules v [] = None"
| "scanRules v (r # rs) = (if matches v r then Some (rule_color r) else scanRules v rs)"

text \<open>
  After the loop the source reads \<open>colorRules[colorRules.length - 1].color\<close>, which
  throws a TypeError on an empty rule list.
\<close>

definition getColorForValue :: "number \<Rightarrow> string \<Rightarrow> error + string" where
  "getColorForValue v dataSourceId =
    (case find (\<lambda>ds. ds_id ds = dataSourceId) dataSources of
       None \<Rightarrow> Inr neutral
     | Some ds \<Rightarrow>
         (case scanRules v (colorRules ds) of
            Some c \<Rightarrow> Inr c
          | None \<Rightarrow>
              (case colorRules ds of
                 [] \<Rightarrow> Inl TypeError
               | _ # _ \<Rightarrow> Inr (rule_color (last (colorRules ds))))))"

section \<open>The weather request: fetchWeatherData\<close>

record Request =
  latitude :: number
  longitude :: number
  hourly :: string
  start_date :: int
  end_date :: int

text \<open>
  What the data source answers. \<open>fetch\<close> rejects (\<open>NetworkError\<close>) or yields a response
  with its \<open>ok\<close> flag and its body. \<open>response.json()\<close> rejects on a body that is not
  JSON (\<open>Unparseable\<close>); otherwise \<open>data.hourly\<close> is missing (\<open>Data None\<close>) or is an
  object from variable names to values. The body is untyped (\<open>any\<close>), so the value
  \<open>data.hourly[selectedDataSource]\<close> is one of:
  \<^item> nothing (\<open>None\<close>): \<open>undefined\<close>, \<open>null\<close> or another falsy value, caught by the guard
    \<open>!values\<close>;
  \<^item> \<open>NotArray\<close>: a truthy value that is not an array (a non-empty string, a non-zero
    number, \<open>true\<close>, an object); it has no \<open>filter\<close> method and the call throws (an
    object with a \<open>length\<close> of 0 returns at the guard before that; the function returns
    \<open>null\<close> either way);
  \<^item> \<open>Samples vals\<close>: an array whose samples are numbers or \<open>null\<close>; a JSON number too
    large for a double, such as \<open>1e400\<close>, is read as an infinity;
  \<^item> \<open>Coerced x\<close>: an array with at least one sample that is neither a number nor
    \<open>null\<close> (a string, a boolean, an array, an object). Such a sample passes the filter
    \<open>v !== null && v !== undefined\<close>, so \<open>validValues\<close> is not empty, and \<open>reduce\<close> and
    the division go through the string and boolean coercions of the language, which are
    no part of the sources: the array is given by the number \<open>x\<close> that
    \<open>validValues.reduce((a, b) => a + b, 0) / validValues.length\<close> makes of it (NaN for
    \<open>["a", "b"]\<close>, 6 for \<open>["1", "2"]\<close>, 1 for \<open>[true]\<close>).
\<close>

datatype series = NotArray | Samples "number option list" | Coerced number

datatype payload = Unparseable | Data "(string \<Rightarrow> series option) option"

datatype response = NetworkError | Http bool payload

type_synonym api = "Request \<Rightarrow> response"

text \<open>
  The URL of the request reads \<open>clampedLat\<close> and \<open>clampedLon\<close>. The function body
  declares \<open>clampedLat\<close> only; no file of the sources declares \<open>clampedLon\<close>. The model
  takes what this identifier resolves to as the parameter \<open>clampedLon\<close>: \<open>None\<close> when it
  has no binding, as in the sources, where reading it throws a ReferenceError inside the
  \<open>try\<close> block. The dates are kept as timestamps; their rendering is not modelled.
\<close>

definition buildRequest ::
  "number option \<Rightarrow> string \<Rightarrow> number \<Rightarrow> number \<Rightarrow> int \<Rightarrow> int \<Rightarrow> error + Request" where
  "buildRequest clampedLon selected lat lon startTime endTime =
    (let clampedLat = Math_max (Num (-90)) (Math_min (Num 90) lat) in
     case clampedLon of
       None \<Rightarrow> Inl ReferenceError
     | Some sentLon \<Rightarrow>
         Inr \<lparr>latitude = clampedLat, longitude = sentLon, hourly = selected,
              start_date = startTime, end_date = endTime\<rparr>)"

text \<open>
  \<open>validValues.reduce((a, b) => a + b, 0) / validValues.length\<close>, over the samples that
  passed the filter \<open>v !== null && v !== undefined\<close>.
\<close>

definition average :: "number option list \<Rightarrow> number option" where
  "average vals =
    (let validValues = filter (\<lambda>v. v \<noteq> None) vals in
     if length validValues > 0
     then Some (num_div
                  (foldl (\<lambda>a b. case b of None \<Rightarrow> a | Some x \<Rightarrow> num_add a x) (Num 0)
                     validValues)
                  (length validValues))
     else None)"

text \<open>The body of the \<open>try\<close> block: \<open>Inl\<close> is a throw, \<open>Inr\<close> a return.\<close>

definition fetchWeatherData_try ::
  "number option \<Rightarrow> api \<Rightarrow> string \<Rightarrow> number \<Rightarrow> number \<Rightarrow> int \<Rightarrow> int
    \<Rightarrow> error + number option" where
  "fetchWeatherData_try clampedLon api selected lat lon startTime endTime =
    (case buildRequest clampedLon selected lat lon startTime endTime of
       Inl e \<Rightarrow> Inl e
     | Inr req \<Rightarrow>
         (case api req of
            NetworkError \<Rightarrow> Inl TypeError
          | Http ok body \<Rightarrow>
              if \<not> ok then Inl HttpError
              else (case body of
                      Unparseable \<Rightarrow> Inl SyntaxError
                    | Data None \<Rightarrow> Inl TypeError
                    | Data (Some hourly_series) \<Rightarrow>
                        (case hourly_series selected of
                           None \<Rightarrow> Inr None
                         | Some NotArray \<Rightarrow> Inl TypeError
                         | Some (Samples vals) \<Rightarrow>
                             if length vals = 0 then Inr None else Inr (average vals)
                         | Some (Coerced x) \<Rightarrow> Inr (Some x)))))"

text \<open>The \<open>catch\<close> block logs and returns \<open>null\<close>.\<close>

definition fetchWeatherData ::
  "number option \<Rightarrow> api \<Rightarrow> string \<Rightarrow> number \<Rightarrow> number \<Rightarrow> int \<Rightarrow> int \<Rightarrow> number option" where
  "fetchWeatherData clampedLon api selected lat lon startTime endTime =
    (case fetchWeatherData_try clampedLon api selected lat lon startTime endTime of
       Inl e \<Rightarrow> None
     | Inr v \<Rightarrow> v)"

section \<open>Polygon store and recompute (Dashboard)\<close>

text \<open>
  The centroid, written out twice in the source (in \<open>updatePolygonColors\<close> and in
  \<open>handlePolygonComplete\<close>): two \<open>reduce\<close> sums divided by the number of coordinates.
  On an empty sequence both quotients are \<open>0 / 0\<close>, which is NaN.
\<close>

definition centroid :: "(real \<times> real) list \<Rightarrow> number \<times> number" where
  "centroid coords =
    (let latSum = foldl (\<lambda>sum coord. sum + fst coord) 0 coords;
         lonSum = foldl (\<lambda>sum coord. sum + snd coord) 0 coords
     in if length coords = 0 then (NaN, NaN)
        else (Num (latSum / real (length coords)), Num (lonSum / real (length coords))))"

text \<open>
  The state of \<open>Dashboard\<close> that the handlers read and write (\<open>currentTime\<close> and
  \<open>isPanelOpen\<close> are display only).
\<close>

record Dashboard =
  polygons :: "Polygon list"
  isDrawing :: bool
  selectedDataSource :: string
  timeRange :: TimeRange

text \<open>
  The value and the colour derived for one coordinate sequence, from the selection and
  the range of the closure \<open>d\<close>: the two lines
  \<open>const value = await fetchWeatherData(...)\<close> and
  \<open>const color = value !== null ? getColorForValue(...) : '#9CA3AF'\<close>.
\<close>

definition derive ::
  "number option \<Rightarrow> api \<Rightarrow> Dashboard \<Rightarrow> (real \<times> real) list
    \<Rightarrow> error + (number option \<times> string)" where
  "derive clampedLon api d coords =
    (let (lat, lon) = centroid coords;
         val = fetchWeatherData clampedLon api (selectedDataSource d) lat lon
                 (range_start (timeRange d)) (range_end (timeRange d))
     in case val of
          None \<Rightarrow> Inr (None, neutral)
        | Some v \<Rightarrow>
            (case getColorForValue v (selectedDataSource d) of
               Inl e \<Rightarrow> Inl e
             | Inr c \<Rightarrow> Inr (Some v, c)))"

text \<open>\<open>Promise.all\<close>: the results in order, or the first rejection.\<close>

fun Promise_all :: "(error + 'a) list \<Rightarrow> error + 'a list" where
  "Promise_all [] = Inr []"
| "Promise_all (Inl e # _) = Inl e"
| "Promise_all (Inr x # rest) =
     (case Promise_all rest of Inl e \<Rightarrow> Inl e | Inr xs \<Rightarrow> Inr (x # xs))"

text \<open>
  \<open>updatePolygonColors\<close> up to its \<open>setPolygons\<close>: the list \<open>updatedPolygons\<close>, computed
  from the polygons, the range and the selection of the render that created the
  callback.
\<close>

definition updatePolygonColors ::
  "number option \<Rightarrow> api \<Rightarrow> Dashboard \<Rightarrow> error + Polygon list" where
  "updatePolygonColors clampedLon api d =
    Promise_all (map (\<lambda>polygon.
      case derive clampedLon api d (coordinates polygon) of
        Inl e \<Rightarrow> Inl e
      | Inr (val, c) \<Rightarrow>
          Inr (polygon\<lparr>polygon_value := val, color := c,
                       dataSource := selectedDataSource d\<rparr>)) (polygons d))"

text \<open>\<open>Date.now()\<close> is a count of milliseconds, rendered in decimal by the template.\<close>

definition digit :: "nat \<Rightarrow> char" where
  "digit d = ''0123456789'' ! d"

fun decimal :: "nat \<Rightarrow> string" where
  "decimal n = (if n < 10 then [digit n] else decimal (n div 10) @ [digit (n mod 10)])"

declare decimal.simps [simp del]

definition newPolygon :: "nat \<Rightarrow> (real \<times> real) list \<Rightarrow> Dashboard \<Rightarrow> Polygon" where
  "newPolygon now coords d =
    \<lparr>polygon_id = ''polygon-'' @ decimal now, coordinates = coords, color = neutral,
     polygon_value = None, dataSource = selectedDataSource d\<rparr>"

text \<open>
  \<open>handlePolygonComplete\<close> up to its \<open>await\<close>: the polygon is appended and drawing is
  switched off. The handler returns a promise of nothing.
\<close>

definition handlePolygonComplete :: "nat \<Rightarrow> (real \<times> real) list \<Rightarrow> Dashboard \<Rightarrow> Dashboard" where
  "handlePolygonComplete now coords d =
    d\<lparr>polygons := polygons d @ [newPolygon now coords d], isDrawing := False\<rparr>"

text \<open>
  The rest of \<open>handlePolygonComplete\<close>, once its fetch has resolved: \<open>closure\<close> is the
  state of the render that created the handler, \<open>d\<close> the state at resolution.
\<close>

definition handlePolygonComplete_resolved ::
  "number option \<Rightarrow> api \<Rightarrow> string \<Rightarrow> (real \<times> real) list \<Rightarrow> Dashboard \<Rightarrow> Dashboard
    \<Rightarrow> error + Dashboard" where
  "handlePolygonComplete_resolved clampedLon api new_id coords closure d =
    (case derive clampedLon api closure coords of
       Inl e \<Rightarrow> Inl e
     | Inr (val, c) \<Rightarrow>
         Inr (d\<lparr>polygons := map (\<lambda>p.
                if polygon_id p = new_id
                then p\<lparr>polygon_value := val, color := c,
                       dataSource := selectedDataSource closure\<rparr>
                else p) (polygons d)\<rparr>))"

definition handleDeletePolygon :: "string \<Rightarrow> Dashboard \<Rightarrow> Dashboard" where
  "handleDeletePolygon polygonId d =
    d\<lparr>polygons := filter (\<lambda>p. polygon_id p \<noteq> polygonId) (polygons d)\<rparr>"

section \<open>Drawing (src/components/InteractiveMap.tsx)\<close>

text \<open>
  The drawing session: the captured points, the markers put on the map (by position) and
  the preview polygon, if one is shown.
\<close>

record MapState =
  drawingPoints :: "(real \<times> real) list"
  drawingMarkers :: "(real \<times> real) list"
  previewPolygon :: "(real \<times> real) list option"

definition handleMapClick :: "bool \<Rightarrow> MapState \<Rightarrow> real \<times> real \<Rightarrow> MapState" where
  "handleMapClick drawing m latlng =
    (if \<not> drawing then m
     else let newPoints = drawingPoints m @ [latlng] in
       if length newPoints > 12 then m
       else m\<lparr>drawingPoints := newPoints,
               drawingMarkers := drawingMarkers m @ [latlng],
               previewPolygon :=
                 (if length newPoints \<ge> 3 then Some newPoints else previewPolygon m)\<rparr>)"

definition cleared :: MapState where
  "cleared = \<lparr>drawingPoints = [], drawingMarkers = [], previewPolygon = None\<rparr>"

text \<open>The second component is the argument of \<open>onPolygonComplete\<close>, when it is called.\<close>

definition handleRightClick :: "bool \<Rightarrow> MapState \<Rightarrow> MapState \<times> (real \<times> real) list option" where
  "handleRightClick drawing m =
    (if \<not> drawing \<or> length (drawingPoints m) < 3 then (m, None)
     else (cleared, Some (drawingPoints m)))"

text \<open>The \<open>else\<close> branch of the drawing effect: leaving drawing mode clears the session.\<close>

definition drawingEffect :: "bool \<Rightarrow> MapState \<Rightarrow> MapState" where
  "drawingEffect drawing m = (if drawing then m else cleared)"

section \<open>The application as a transition system\<close>

text \<open>
  Events are handled one at a time. A fetch in flight is a pending task that holds the
  closure of the callback that issued it; \<open>Resolve i\<close> is the moment the \<open>i\<close>-th pending
  task gets its answers and runs to its end.
\<close>

datatype task =
  Recompute Dashboard
| Created string "(real \<times> real) list" Dashboard

record App =
  dash :: Dashboard
  mapState :: MapState
  pending :: "task list"

datatype event =
  SelectDataSource string
| SetTimeRange TimeRange
| StartDrawing
| MapClick "real \<times> real"
| RightClick nat
| DeletePolygon string
| Resolve nat

text \<open>
  The effect on \<open>[timeRange, selectedDataSource]\<close>: with at least one polygon it calls
  \<open>updatePolygonColors\<close> of the current render.
\<close>

definition recomputeEffect :: "App \<Rightarrow> App" where
  "recomputeEffect s =
    (if length (polygons (dash s)) > 0
     then s\<lparr>pending := pending s @ [Recompute (dash s)]\<rparr> else s)"

definition resolve :: "number option \<Rightarrow> api \<Rightarrow> task \<Rightarrow> Dashboard \<Rightarrow> Dashboard" where
  "resolve clampedLon api t d =
    (case t of
       Recompute closure \<Rightarrow>
         (case updatePolygonColors clampedLon api closure of
            Inl e \<Rightarrow> d
          | Inr updatedPolygons \<Rightarrow> d\<lparr>polygons := updatedPolygons\<rparr>)
     | Created new_id coords closure \<Rightarrow>
         (case handlePolygonComplete_resolved clampedLon api new_id coords closure d of
            Inl e \<Rightarrow> d
          | Inr d' \<Rightarrow> d'))"

fun step :: "number option \<Rightarrow> api \<Rightarrow> App \<Rightarrow> event \<Rightarrow> App" where
  "step clampedLon api s (SelectDataSource v) =
     (if v = selectedDataSource (dash s) then s
      else recomputeEffect (s\<lparr>dash := (dash s)\<lparr>selectedDataSource := v\<rparr>\<rparr>))"
| "step clampedLon api s (SetTimeRange r) =
     recomputeEffect (s\<lparr>dash := (dash s)\<lparr>timeRange := r\<rparr>\<rparr>)"
| "step clampedLon api s StartDrawing = s\<lparr>dash := (dash s)\<lparr>isDrawing := True\<rparr>\<rparr>"
| "step clampedLon api s (MapClick latlng) =
     s\<lparr>mapState := handleMapClick (isDrawing (dash s)) (mapState s) latlng\<rparr>"
| "step clampedLon api s (RightClick now) =
     (case handleRightClick (isDrawing (dash s)) (mapState s) of
        (m, None) \<Rightarrow> s\<lparr>mapState := m\<rparr>
      | (m, Some coords) \<Rightarrow>
          (let d = handlePolygonComplete now coords (dash s) in
           s\<lparr>dash := d, mapState := drawingEffect (isDrawing d) m,
             pending := pending s @
               [Created (polygon_id (newPolygon now coords (dash s))) coords (dash s)]\<rparr>))"
| "step clampedLon api s (DeletePolygon polygonId) =
     s\<lparr>dash := handleDeletePolygon polygonId (dash s)\<rparr>"
| "step clampedLon api s (Resolve i) =
     (if i < length (pending s)
      then s\<lparr>dash := resolve clampedLon api (pending s ! i) (dash s),
             pending := take i (pending s) @ drop (Suc i) (pending s)\<rparr>
      else s)"

definition run :: "number option \<Rightarrow> api \<Rightarrow> App \<Rightarrow> event list \<Rightarrow> App" where
  "run clampedLon api s evs = foldl (step clampedLon api) s evs"

section \<open>Classifier: first match wins, the last rule is the default\<close>

lemma scanRules_find:
  "scanRules v rs = map_option rule_color (find (matches v) rs)"
  by (induction rs) simp_all

lemma catalog_ids:
  "map ds_id dataSources =
     [''temperature_2m'', ''relative_humidity_2m'', ''precipitation'', ''wind_speed_10m'']"
  by (simp add: dataSources_def)

lemma distinct_catalog_ids: "distinct (map ds_id dataSources)"
  unfolding catalog_ids by simp

lemma find_by_key:
  "distinct (map f xs) \<Longrightarrow> x \<in> set xs \<Longrightarrow> find (\<lambda>y. f y = f x) xs = Some x"
  by (induction xs) (auto simp: rev_image_eqI)

lemma catalog_find:
  "ds \<in> set dataSources \<Longrightarrow> find (\<lambda>d. ds_id d = ds_id ds) dataSources = Some ds"
  by (rule find_by_key [OF distinct_catalog_ids])

lemma catalog_rules_nonempty: "ds \<in> set dataSources \<Longrightarrow> colorRules ds \<noteq> []"
  by (auto simp: dataSources_def)

text \<open>
  C3. For every value \<open>v\<close> and every variable of the catalog, the classifier returns the
  colour of the first rule of the variable's list with \<open>min \<le> v < max\<close>, and the colour
  of the last rule when no rule matches; NaN matches no rule and gets the last colour.
\<close>

theorem classify_first_match_or_last:
  "\<forall>ds \<in> set dataSources.
     getColorForValue v (ds_id ds) =
       Inr (case find (\<lambda>r. num_ge v (Num (rule_min r)) \<and> num_lt v (Num (rule_max r)))
                   (colorRules ds) of
              Some r \<Rightarrow> rule_color r
            | None \<Rightarrow> rule_color (last (colorRules ds))) \<and>
     getColorForValue NaN (ds_id ds) = Inr (rule_color (last (colorRules ds)))"
proof
  fix ds assume ds: "ds \<in> set dataSources"
  have m: "matches v = (\<lambda>r. num_ge v (Num (rule_min r)) \<and> num_lt v (Num (rule_max r)))"
    by (rule ext) (simp add: matches_def)
  have nan: "find (matches NaN) rs = None" for rs
    by (induction rs) (simp_all add: matches_def)
  from catalog_rules_nonempty [OF ds] obtain r rs where rs: "colorRules ds = r # rs"
    by (cases "colorRules ds") auto
  have 1: "getColorForValue w (ds_id ds) =
       Inr (case find (matches w) (colorRules ds) of
              Some r \<Rightarrow> rule_color r
            | None \<Rightarrow> rule_color (last (colorRules ds)))" for w
    unfolding getColorForValue_def catalog_find [OF ds] scanRules_find
    by (simp add: rs split: option.split)
  show "getColorForValue v (ds_id ds) =
       Inr (case find (\<lambda>r. num_ge v (Num (rule_min r)) \<and> num_lt v (Num (rule_max r)))
                   (colorRules ds) of
              Some r \<Rightarrow> rule_color r
            | None \<Rightarrow> rule_color (last (colorRules ds))) \<and>
     getColorForValue NaN (ds_id ds) = Inr (rule_color (last (colorRules ds)))"
    using 1 [of v] 1 [of NaN] by (simp add: m nan)
qed

theorem classify_first_match_or_last_witness:
  "getColorForValue (Num 5) ''temperature_2m'' = Inr ''#06B6D4'' \<and>
   getColorForValue (Num (-25)) ''temperature_2m'' = Inr ''#EF4444'' \<and>
   getColorForValue (Num 25) ''relative_humidity_2m'' = Inr ''#F59E0B'' \<and>
   getColorForValue NaN ''precipitation'' = Inr ''#1E1B4B''"
  using classify_first_match_or_last [of "Num 5"]
        classify_first_match_or_last [of "Num (-25)"]
        classify_first_match_or_last [of "Num 25"]
  by (simp add: dataSources_def rule_def)

text \<open>
  C10. With a variable identifier that is not in the catalog the classifier returns the
  neutral colour \<open>#9CA3AF\<close>, whatever the value: it does not fail.
\<close>

theorem classify_unknown_variable:
  "dataSourceId \<notin> set (map ds_id dataSources) \<Longrightarrow>
     getColorForValue v dataSourceId = Inr ''#9CA3AF''"
proof -
  assume a: "dataSourceId \<notin> set (map ds_id dataSources)"
  have "find (\<lambda>ds. ds_id ds = dataSourceId) dataSources = None"
    using a by (auto simp: find_None_iff)
  then show ?thesis by (simp add: getColorForValue_def neutral_def)
qed

theorem classify_unknown_variable_witness:
  "''soil_moisture'' \<notin> set (map ds_id dataSources) \<and>
   getColorForValue NaN ''soil_moisture'' = Inr ''#9CA3AF''"
proof -
  have h: "''soil_moisture'' \<notin> set (map ds_id dataSources)"
    by (simp add: dataSources_def)
  show ?thesis using h classify_unknown_variable [OF h, of NaN] by simp
qed

section \<open>Centroid\<close>

lemma foldl_plus_sum_list:
  "foldl (\<lambda>s c. s + f c) a xs = a + sum_list (map f xs)" for a :: real
  by (induction xs arbitrary: a) simp_all

text \<open>
  C8. For a non-empty coordinate sequence the centroid is the arithmetic mean of the
  coordinate pairs (mean of the latitudes, mean of the longitudes); for
  \<open>[(0,0),(0,2),(2,2),(2,0)]\<close> it is \<open>(1,1)\<close>.
\<close>

theorem centroid_is_mean:
  "(coords \<noteq> [] \<longrightarrow>
      centroid coords =
        (Num (sum_list (map fst coords) / real (length coords)),
         Num (sum_list (map snd coords) / real (length coords)))) \<and>
   centroid [(0, 0), (0, 2), (2, 2), (2, 0)] = (Num 1, Num 1)"
  by (simp add: centroid_def foldl_plus_sum_list)

theorem centroid_is_mean_witness:
  "[(1, 2), (3, 4), (5, 9 :: real)] \<noteq> [] \<and>
   centroid [(1, 2), (3, 4), (5, 9)] = (Num 3, Num 5)"
  using centroid_is_mean [of "[(1, 2), (3, 4), (5, 9)]"] by simp

section \<open>Drawing\<close>

lemma step_click_drawing:
  "isDrawing (dash (step clampedLon api s (MapClick p))) = isDrawing (dash s)"
  by simp

lemma step_click_points:
  "isDrawing (dash s) \<Longrightarrow> length (drawingPoints (mapState s)) < 12 \<Longrightarrow>
     drawingPoints (mapState (step clampedLon api s (MapClick p))) = drawingPoints (mapState s) @ [p]"
  by (simp add: handleMapClick_def Let_def)

lemma clicks_accumulate:
  "isDrawing (dash s) \<Longrightarrow> length (drawingPoints (mapState s)) + length ps \<le> 12 \<Longrightarrow>
     drawingPoints (mapState (run clampedLon api s (map MapClick ps)))
       = drawingPoints (mapState s) @ ps"
proof (induction ps arbitrary: s)
  case Nil
  then show ?case by (simp add: run_def)
next
  case (Cons p ps)
  let ?s = "step clampedLon api s (MapClick p)"
  have d: "isDrawing (dash ?s)" using Cons.prems(1) by simp
  have pts: "drawingPoints (mapState ?s) = drawingPoints (mapState s) @ [p]"
    using Cons.prems by (intro step_click_points) simp_all
  have "drawingPoints (mapState (run clampedLon api ?s (map MapClick ps)))
       = drawingPoints (mapState ?s) @ ps"
  proof (rule Cons.IH [OF d])
    show "length (drawingPoints (mapState ?s)) + length ps \<le> 12"
      unfolding pts using Cons.prems(2) by simp
  qed
  then show ?case by (simp add: run_def pts del: step.simps)
qed

text \<open>
  C5. When the session holds 12 points a further click changes nothing: the points, the
  markers and the preview stay as they are, no polygon is committed and drawing goes on.
\<close>

theorem thirteenth_point_rejected:
  "length (drawingPoints (mapState s)) = 12 \<Longrightarrow> step clampedLon api s (MapClick latlng) = s"
  by (simp add: handleMapClick_def)

theorem thirteenth_point_rejected_witness:
  "length (drawingPoints (mapState (run None (\<lambda>r. NetworkError)
      \<lparr>dash = \<lparr>polygons = [], isDrawing = True, selectedDataSource = ''temperature_2m'',
               timeRange = \<lparr>range_start = 0, range_end = 86400000\<rparr>\<rparr>,
       mapState = cleared, pending = []\<rparr>
      (map MapClick [(0, 0), (0, 1), (0, 2), (0, 3), (1, 3), (2, 3), (3, 3), (3, 2), (3, 1),
          (3, 0), (2, 0), (1, 0)])))) = 12 \<and>
   step None (\<lambda>r. NetworkError)
     (run None (\<lambda>r. NetworkError)
      \<lparr>dash = \<lparr>polygons = [], isDrawing = True, selectedDataSource = ''temperature_2m'',
               timeRange = \<lparr>range_start = 0, range_end = 86400000\<rparr>\<rparr>,
       mapState = cleared, pending = []\<rparr>
      (map MapClick [(0, 0), (0, 1), (0, 2), (0, 3), (1, 3), (2, 3), (3, 3), (3, 2), (3, 1),
          (3, 0), (2, 0), (1, 0)]))
     (MapClick (1, 1))
   = run None (\<lambda>r. NetworkError)
      \<lparr>dash = \<lparr>polygons = [], isDrawing = True, selectedDataSource = ''temperature_2m'',
               timeRange = \<lparr>range_start = 0, range_end = 86400000\<rparr>\<rparr>,
       mapState = cleared, pending = []\<rparr>
      (map MapClick [(0, 0), (0, 1), (0, 2), (0, 3), (1, 3), (2, 3), (3, 3), (3, 2), (3, 1),
          (3, 0), (2, 0), (1, 0)])"
proof -
  let ?s0 = "\<lparr>dash = \<lparr>polygons = [], isDrawing = True, selectedDataSource = ''temperature_2m'',
               timeRange = \<lparr>range_start = 0, range_end = 86400000\<rparr>\<rparr>,
       mapState = cleared, pending = []\<rparr>"
  let ?ps = "[(0, 0), (0, 1), (0, 2), (0, 3), (1, 3), (2, 3), (3, 3), (3, 2), (3, 1),
          (3, 0), (2, 0), (1, 0)] :: (real \<times> real) list"
  have "drawingPoints (mapState (run None (\<lambda>r. NetworkError) ?s0 (map MapClick ?ps)))
          = drawingPoints (mapState ?s0) @ ?ps"
    by (rule clicks_accumulate) (simp_all add: cleared_def)
  then have h: "length (drawingPoints (mapState
          (run None (\<lambda>r. NetworkError) ?s0 (map MapClick ?ps)))) = 12"
    by (simp add: cleared_def)
  from h thirteenth_point_rejected [OF h] show ?thesis by (rule conjI)
qed

text \<open>
  C6. A right click with fewer than 3 captured points changes nothing (no polygon is
  committed, the session goes on). From a drawing session with no points, three clicks
  and a right click append one polygon whose coordinates are the three points in the
  order of the clicks, switch drawing off and clear the session.
\<close>

theorem complete_needs_three_points:
  "(length (drawingPoints (mapState s)) < 3 \<longrightarrow> step clampedLon api s (RightClick now) = s) \<and>
   (isDrawing (dash s) \<and> drawingPoints (mapState s) = [] \<longrightarrow>
      polygons (dash (run clampedLon api s [MapClick a, MapClick b, MapClick c, RightClick now]))
        = polygons (dash s) @
            [\<lparr>polygon_id = ''polygon-'' @ decimal now, coordinates = [a, b, c],
              color = ''#9CA3AF'', polygon_value = None,
              dataSource = selectedDataSource (dash s)\<rparr>] \<and>
      \<not> isDrawing (dash (run clampedLon api s [MapClick a, MapClick b, MapClick c, RightClick now])) \<and>
      mapState (run clampedLon api s [MapClick a, MapClick b, MapClick c, RightClick now])
        = \<lparr>drawingPoints = [], drawingMarkers = [], previewPolygon = None\<rparr>)"
  by (simp add: run_def handleRightClick_def handleMapClick_def handlePolygonComplete_def
       newPolygon_def neutral_def drawingEffect_def cleared_def Let_def)

theorem complete_needs_three_points_witness:
  "run None (\<lambda>r. NetworkError)
      \<lparr>dash = \<lparr>polygons = [], isDrawing = True, selectedDataSource = ''temperature_2m'',
               timeRange = \<lparr>range_start = 0, range_end = 86400000\<rparr>\<rparr>,
       mapState = cleared, pending = []\<rparr>
      [MapClick (0, 0), MapClick (0, 2), RightClick 1700000000000]
   = run None (\<lambda>r. NetworkError)
      \<lparr>dash = \<lparr>polygons = [], isDrawing = True, selectedDataSource = ''temperature_2m'',
               timeRange = \<lparr>range_start = 0, range_end = 86400000\<rparr>\<rparr>,
       mapState = cleared, pending = []\<rparr>
      [MapClick (0, 0), MapClick (0, 2)] \<and>
   map coordinates (polygons (dash (run None (\<lambda>r. NetworkError)
      \<lparr>dash = \<lparr>polygons = [], isDrawing = True, selectedDataSource = ''temperature_2m'',
               timeRange = \<lparr>range_start = 0, range_end = 86400000\<rparr>\<rparr>,
       mapState = cleared, pending = []\<rparr>
      [MapClick (0, 0), MapClick (0, 2), MapClick (2, 2), RightClick 1700000000000])))
   = [[(0, 0), (0, 2), (2, 2)]] \<and>
   \<not> isDrawing (dash (run None (\<lambda>r. NetworkError)
      \<lparr>dash = \<lparr>polygons = [], isDrawing = True, selectedDataSource = ''temperature_2m'',
               timeRange = \<lparr>range_start = 0, range_end = 86400000\<rparr>\<rparr>,
       mapState = cleared, pending = []\<rparr>
      [MapClick (0, 0), MapClick (0, 2), MapClick (2, 2), RightClick 1700000000000]))"
proof -
  let ?api = "\<lambda>r::Request. NetworkError"
  let ?s0 = "\<lparr>dash = \<lparr>polygons = [], isDrawing = True, selectedDataSource = ''temperature_2m'',
               timeRange = \<lparr>range_start = 0, range_end = 86400000\<rparr>\<rparr>,
       mapState = cleared, pending = []\<rparr>"
  let ?s2 = "run None ?api ?s0 [MapClick (0, 0), MapClick (0, 2)]"
  have two: "length (drawingPoints (mapState ?s2)) < 3"
    by (simp add: run_def handleMapClick_def cleared_def Let_def)
  have split: "run None ?api ?s0 [MapClick (0, 0), MapClick (0, 2), RightClick 1700000000000]
      = step None ?api ?s2 (RightClick 1700000000000)"
    by (simp add: run_def del: step.simps)
  have start: "isDrawing (dash ?s0) \<and> drawingPoints (mapState ?s0) = []"
    by (simp add: cleared_def)
  from complete_needs_three_points [of ?s2 None ?api 1700000000000] two
  have 1: "step None ?api ?s2 (RightClick 1700000000000) = ?s2" by blast
  from complete_needs_three_points [of ?s0 None ?api 1700000000000 "(0, 0)" "(0, 2)" "(2, 2)"] start
  have 2: "polygons (dash (run None ?api ?s0
              [MapClick (0, 0), MapClick (0, 2), MapClick (2, 2), RightClick 1700000000000]))
        = polygons (dash ?s0) @
            [\<lparr>polygon_id = ''polygon-'' @ decimal 1700000000000,
              coordinates = [(0, 0), (0, 2), (2, 2)],
              color = ''#9CA3AF'', polygon_value = None,
              dataSource = selectedDataSource (dash ?s0)\<rparr>]"
    and 3: "\<not> isDrawing (dash (run None ?api ?s0
              [MapClick (0, 0), MapClick (0, 2), MapClick (2, 2), RightClick 1700000000000]))"
    by blast+
  show ?thesis
    unfolding split 1 2 using 3 by simp
qed

section \<open>Polygon store\<close>

lemma filter_remove_one:
  "distinct (map f (xs @ p # ys)) \<Longrightarrow> filter (\<lambda>q. f q \<noteq> f p) (xs @ p # ys) = xs @ ys"
  by (induction xs) (auto simp: filter_id_conv rev_image_eqI)

text \<open>
  C7. Removing an identifier that no polygon has leaves the state unchanged; removing the
  identifier of a polygon of a collection with distinct identifiers takes exactly that
  polygon out and keeps the others in order; after a removal no polygon has the
  identifier; a commit on an empty collection followed by the removal of the committed
  polygon's identifier leaves the collection empty.
\<close>

theorem remove_by_id:
  "(polygonId \<notin> set (map polygon_id (polygons d)) \<longrightarrow> handleDeletePolygon polygonId d = d) \<and>
   (distinct (map polygon_id (polygons d)) \<and> polygons d = xs @ p # ys \<longrightarrow>
      polygons (handleDeletePolygon (polygon_id p) d) = xs @ ys) \<and>
   polygonId \<notin> set (map polygon_id (polygons (handleDeletePolygon polygonId d))) \<and>
   (polygons d = [] \<longrightarrow>
      polygons (handleDeletePolygon (polygon_id (newPolygon now coords d))
                 (handlePolygonComplete now coords d)) = [])"
proof -
  have 1: "polygonId \<notin> set (map polygon_id (polygons d)) \<longrightarrow> handleDeletePolygon polygonId d = d"
  proof
    assume "polygonId \<notin> set (map polygon_id (polygons d))"
    then have "filter (\<lambda>p. polygon_id p \<noteq> polygonId) (polygons d) = polygons d"
      by (auto simp: filter_id_conv)
    then show "handleDeletePolygon polygonId d = d"
      by (simp add: handleDeletePolygon_def)
  qed
  have 2: "distinct (map polygon_id (polygons d)) \<and> polygons d = xs @ p # ys \<longrightarrow>
      polygons (handleDeletePolygon (polygon_id p) d) = xs @ ys"
    using filter_remove_one [of polygon_id xs p ys] by (auto simp: handleDeletePolygon_def)
  have 3: "polygonId \<notin> set (map polygon_id (polygons (handleDeletePolygon polygonId d)))"
    by (auto simp: handleDeletePolygon_def)
  have 4: "polygons d = [] \<longrightarrow>
      polygons (handleDeletePolygon (polygon_id (newPolygon now coords d))
                 (handlePolygonComplete now coords d)) = []"
    by (simp add: handleDeletePolygon_def handlePolygonComplete_def)
  from 1 2 3 4 show ?thesis by blast
qed

theorem remove_by_id_witness:
  "''polygon-7'' \<notin> set (map polygon_id (polygons
      \<lparr>polygons = [], isDrawing = True, selectedDataSource = ''precipitation'',
       timeRange = \<lparr>range_start = 0, range_end = 3600000\<rparr>\<rparr>)) \<and>
   handleDeletePolygon ''polygon-7''
      \<lparr>polygons = [], isDrawing = True, selectedDataSource = ''precipitation'',
       timeRange = \<lparr>range_start = 0, range_end = 3600000\<rparr>\<rparr>
     = \<lparr>polygons = [], isDrawing = True, selectedDataSource = ''precipitation'',
        timeRange = \<lparr>range_start = 0, range_end = 3600000\<rparr>\<rparr> \<and>
   polygons (handleDeletePolygon (''polygon-'' @ decimal 1700000000000)
     (handlePolygonComplete 1700000000000 [(0, 0), (0, 2), (2, 2)]
        \<lparr>polygons = [], isDrawing = True, selectedDataSource = ''precipitation'',
         timeRange = \<lparr>range_start = 0, range_end = 3600000\<rparr>\<rparr>)) = []"
  using remove_by_id [of "''polygon-7''"
      "\<lparr>polygons = [], isDrawing = True, selectedDataSource = ''precipitation'',
       timeRange = \<lparr>range_start = 0, range_end = 3600000\<rparr>\<rparr>" "[]" undefined "[]"
      1700000000000 "[(0, 0), (0, 2), (2, 2)]"]
  by (simp add: newPolygon_def)

section \<open>The weather request\<close>








text \<open>
  With a binding for \<open>clampedLon\<close>, which the sources do not give, an array with a sample
  that is neither a number nor \<open>null\<close> would yield the number its coercion makes.
\<close>

lemma coerced_series_value:
  "buildRequest clampedLon sel lat lon st en = Inr req \<Longrightarrow>
   api req = Http True (Data (Some hourly_series)) \<Longrightarrow>
   hourly_series sel = Some (Coerced x) \<Longrightarrow>
     fetchWeatherData clampedLon api sel lat lon st en = Some x"
  by (simp add: fetchWeatherData_def fetchWeatherData_try_def)



text \<open>
  C2, at latitude 95 and longitude 200. With no binding for \<open>clampedLon\<close>, as in the
  sources, building the request throws a ReferenceError: no request is sent and the
  fetch gives no value. With a binding \<open>c\<close> the request carries the latitude 90 (95
  clamped) and the longitude \<open>c\<close>: the input longitude is not clamped to 180 and
  sent, it is not read at all.
\<close>

theorem longitude_clamp_missing:
  "buildRequest None ''temperature_2m'' (Num 95) (Num 200) 0 86400000 = Inl ReferenceError \<and>
   fetchWeatherData None api ''temperature_2m'' (Num 95) (Num 200) 0 86400000 = None \<and>
   buildRequest (Some c) ''temperature_2m'' (Num 95) (Num 200) 0 86400000 =
     Inr \<lparr>latitude = Num 90, longitude = c, hourly = ''temperature_2m'',
          start_date = 0, end_date = 86400000\<rparr>"
  by (simp add: buildRequest_def fetchWeatherData_def fetchWeatherData_try_def
       Math_max_def Math_min_def)

section \<open>Identifiers of committed polygons\<close>

lemma digit_inj: "a < 10 \<Longrightarrow> b < 10 \<Longrightarrow> digit a = digit b \<Longrightarrow> a = b"
proof -
  assume a: "a < 10" and b: "b < 10" and e: "digit a = digit b"
  have d: "distinct ''0123456789''" by simp
  have "length ''0123456789'' = 10" by simp
  with a b e d show ?thesis
    unfolding digit_def by (metis nth_eq_iff_index_eq)
qed

lemma decimal_length_one: "n < 10 \<Longrightarrow> length (decimal n) = 1"
  by (subst decimal.simps) simp

lemma decimal_not_Nil: "decimal n \<noteq> []"
  by (subst decimal.simps) simp

lemma decimal_length_two: "\<not> n < 10 \<Longrightarrow> length (decimal n) \<ge> 2"
proof -
  assume n: "\<not> n < 10"
  have "length (decimal (n div 10)) \<ge> 1"
    using decimal_not_Nil [of "n div 10"] by (cases "decimal (n div 10)") simp_all
  moreover have "decimal n = decimal (n div 10) @ [digit (n mod 10)]"
    using n by (subst decimal.simps) simp
  ultimately show ?thesis by simp
qed

lemma decimal_inj: "decimal a = decimal b \<Longrightarrow> a = b"
proof (induction a arbitrary: b rule: decimal.induct)
  case (1 n)
  show ?case
  proof (cases "n < 10")
    case True
    have b: "b < 10"
    proof (rule ccontr)
      assume "\<not> b < 10"
      from decimal_length_two [OF this] decimal_length_one [OF True] "1.prems"
      show False by simp
    qed
    from True b "1.prems" have "digit n = digit b" by (simp add: decimal.simps)
    with True b show ?thesis by (rule digit_inj)
  next
    case False
    have b: "\<not> b < 10"
    proof
      assume "b < 10"
      from decimal_length_one [OF this] decimal_length_two [OF False] "1.prems"
      show False by simp
    qed
    have n: "decimal n = decimal (n div 10) @ [digit (n mod 10)]"
      using False by (subst decimal.simps) simp
    have bb: "decimal b = decimal (b div 10) @ [digit (b mod 10)]"
      using b by (subst decimal.simps) simp
    from "1.prems" n bb have e: "decimal (n div 10) = decimal (b div 10)"
      and dg: "digit (n mod 10) = digit (b mod 10)" by simp_all
    from "1.IH" [OF False e] have q: "n div 10 = b div 10" .
    from dg have r: "n mod 10 = b mod 10" by (intro digit_inj) simp_all
    from q r show ?thesis by (metis div_mult_mod_eq)
  qed
qed

lemma polygon_ids_commits:
  "map polygon_id (polygons (foldl (\<lambda>d (now, coords). handlePolygonComplete now coords d) d cs))
     = map polygon_id (polygons d) @ map (\<lambda>(now, coords). ''polygon-'' @ decimal now) cs"
  by (induction cs arbitrary: d)
     (simp_all add: handlePolygonComplete_def newPolygon_def split_beta)

lemma distinct_ids_iff:
  "distinct (map (\<lambda>(now :: nat, coords :: (real \<times> real) list). ''polygon-'' @ decimal now) cs)
     = distinct (map fst cs)"
proof -
  have "inj (\<lambda>n. ''polygon-'' @ decimal n)"
    by (rule injI) (simp add: decimal_inj)
  then have "inj_on (\<lambda>n. ''polygon-'' @ decimal n) (set (map fst cs))"
    by (rule inj_on_subset) simp
  then have "distinct (map (\<lambda>n. ''polygon-'' @ decimal n) (map fst cs)) = distinct (map fst cs)"
    unfolding distinct_map [of _ "map fst cs"] by blast
  moreover have "map (\<lambda>(now, coords). ''polygon-'' @ decimal now) cs
      = map (\<lambda>n. ''polygon-'' @ decimal n) (map fst cs)"
    by (simp add: split_beta)
  ultimately show ?thesis by (simp only:)
qed

text \<open>
  C4, as the code has it. A commit appends, at the end of the collection, a polygon with
  no value, the neutral colour and the identifier \<open>polygon-\<close> followed by the clock
  reading in decimal. The identifiers given by a sequence of commits on an empty
  collection are pairwise distinct exactly when the clock readings are.
\<close>

theorem commit_time_derived_id:
  "polygons (handlePolygonComplete now coords d) =
     polygons d @
       [\<lparr>polygon_id = ''polygon-'' @ decimal now, coordinates = coords, color = ''#9CA3AF'',
         polygon_value = None, dataSource = selectedDataSource d\<rparr>] \<and>
   (polygons d = [] \<longrightarrow>
      distinct (map polygon_id (polygons
         (foldl (\<lambda>d (now, coords). handlePolygonComplete now coords d) d cs)))
        = distinct (map fst cs))"
  using polygon_ids_commits [of d cs] distinct_ids_iff [of cs]
  by (simp add: handlePolygonComplete_def newPolygon_def neutral_def)

theorem commit_time_derived_id_witness:
  "distinct (map polygon_id (polygons
      (foldl (\<lambda>d (now, coords). handlePolygonComplete now coords d)
         \<lparr>polygons = [], isDrawing = True, selectedDataSource = ''temperature_2m'',
          timeRange = \<lparr>range_start = 0, range_end = 86400000\<rparr>\<rparr>
         [(1700000000000, [(0, 0), (0, 2), (2, 2)]), (1700000000001, [(5, 5), (5, 6), (6, 6)])])))"
  using commit_time_derived_id [of 0 "[]"
          "\<lparr>polygons = [], isDrawing = True, selectedDataSource = ''temperature_2m'',
          timeRange = \<lparr>range_start = 0, range_end = 86400000\<rparr>\<rparr>"
          "[(1700000000000, [(0, 0), (0, 2), (2, 2)]), (1700000000001, [(5, 5), (5, 6), (6, 6)])]"]
  by simp

text \<open>
  Two commits at the same clock reading: the second polygon gets the identifier of the
  first, so the identifiers of the collection are not distinct.
\<close>

theorem commit_same_millisecond_counterexample:
  "polygon_id (last (polygons
      (handlePolygonComplete 1700000000000 [(5, 5), (5, 6), (6, 6)]
        (handlePolygonComplete 1700000000000 [(0, 0), (0, 2), (2, 2)]
          \<lparr>polygons = [], isDrawing = True, selectedDataSource = ''temperature_2m'',
           timeRange = \<lparr>range_start = 0, range_end = 86400000\<rparr>\<rparr>))))
   \<in> set (map polygon_id (polygons
        (handlePolygonComplete 1700000000000 [(0, 0), (0, 2), (2, 2)]
          \<lparr>polygons = [], isDrawing = True, selectedDataSource = ''temperature_2m'',
           timeRange = \<lparr>range_start = 0, range_end = 86400000\<rparr>\<rparr>))) \<and>
   \<not> distinct (map polygon_id (polygons
      (handlePolygonComplete 1700000000000 [(5, 5), (5, 6), (6, 6)]
        (handlePolygonComplete 1700000000000 [(0, 0), (0, 2), (2, 2)]
          \<lparr>polygons = [], isDrawing = True, selectedDataSource = ''temperature_2m'',
           timeRange = \<lparr>range_start = 0, range_end = 86400000\<rparr>\<rparr>))))"
  by (simp add: handlePolygonComplete_def newPolygon_def)

section \<open>Recompute\<close>

lemma find_Some_mem: "find P xs = Some x \<Longrightarrow> x \<in> set xs"
  by (induction xs) (auto split: if_splits)

lemma getColorForValue_total: "\<exists>c. getColorForValue v dataSourceId = Inr c"
proof (cases "find (\<lambda>ds. ds_id ds = dataSourceId) dataSources")
  case None
  then show ?thesis by (simp add: getColorForValue_def)
next
  case (Some ds)
  then have "colorRules ds \<noteq> []"
    by (intro catalog_rules_nonempty find_Some_mem)
  then show ?thesis
    using Some by (cases "colorRules ds") (simp_all add: getColorForValue_def split: option.split)
qed

lemma derive_eq:
  "derive clampedLon api d coords =
     Inr (let val = fetchWeatherData clampedLon api (selectedDataSource d)
                      (fst (centroid coords)) (snd (centroid coords))
                      (range_start (timeRange d)) (range_end (timeRange d))
          in (val, case val of None \<Rightarrow> ''#9CA3AF''
                   | Some v \<Rightarrow> projr (getColorForValue v (selectedDataSource d))))"
proof (cases "fetchWeatherData clampedLon api (selectedDataSource d)
                (fst (centroid coords)) (snd (centroid coords))
                (range_start (timeRange d)) (range_end (timeRange d))")
  case None
  then show ?thesis by (simp add: derive_def split_beta neutral_def)
next
  case (Some v)
  obtain c where "getColorForValue v (selectedDataSource d) = Inr c"
    using getColorForValue_total by blast
  with Some show ?thesis by (simp add: derive_def split_beta)
qed

lemma Promise_all_Inr: "Promise_all (map (\<lambda>x. Inr (g x)) xs) = Inr (map g xs)"
  by (induction xs) simp_all

lemma updatePolygonColors_eq:
  "updatePolygonColors clampedLon api d =
     Inr (map (\<lambda>p.
        let val = fetchWeatherData clampedLon api (selectedDataSource d)
                    (fst (centroid (coordinates p))) (snd (centroid (coordinates p)))
                    (range_start (timeRange d)) (range_end (timeRange d))
        in p\<lparr>polygon_value := val,
             color := (case val of None \<Rightarrow> ''#9CA3AF''
                       | Some v \<Rightarrow> projr (getColorForValue v (selectedDataSource d))),
             dataSource := selectedDataSource d\<rparr>) (polygons d))"
  unfolding updatePolygonColors_def derive_eq
  by (simp add: Let_def Promise_all_Inr)

text \<open>
  The result of a recompute is applied whenever it resolves: the collection becomes the
  polygons of the render that issued it, with what was derived for the selection and the
  range of that render, and the selection current at that moment is left as it is.
\<close>

lemma resolve_recompute_polygons:
  "i < length (pending s) \<and> pending s ! i = Recompute closure \<longrightarrow>
     polygons (dash (step clampedLon api s (Resolve i))) =
       map (\<lambda>p.
          let val = fetchWeatherData clampedLon api (selectedDataSource closure)
                      (fst (centroid (coordinates p))) (snd (centroid (coordinates p)))
                      (range_start (timeRange closure)) (range_end (timeRange closure))
          in p\<lparr>polygon_value := val,
               color := (case val of None \<Rightarrow> ''#9CA3AF''
                         | Some v \<Rightarrow> projr (getColorForValue v (selectedDataSource closure))),
               dataSource := selectedDataSource closure\<rparr>) (polygons closure) \<and>
     selectedDataSource (dash (step clampedLon api s (Resolve i))) = selectedDataSource (dash s)"
  by (simp add: resolve_def updatePolygonColors_eq)








end
